theory Spec2Isabelle
  imports Main
begin

section \<open>The Docker event monitor of src/main.py\<close>

text \<open>
  The program reads the event stream of the Docker daemon, filters the container events,
  looks the container up, builds a Discord embed and posts it to a webhook with retries.
  The embedding keeps the names of the source. The three collaborators of the program
  (the webhook, the container lookup, the event stream) are parameters: the webhook and
  the lookup are functions of the whole history so far, the stream is a list of items.
\<close>

subsection \<open>Python strings\<close>

text \<open>
  A Python \<open>str\<close> is modelled as a \<open>string\<close>. The characters of the source outside
  ASCII (the emoji of the titles) are written as their UTF-8 bytes.

  \<open>str_split sep s\<close> is \<open>s.split(sep)\<close> for a separator of one character: the result
  has one more element than \<open>s\<close> has separators, and empty pieces are kept.
\<close>

fun str_split :: "char \<Rightarrow> string \<Rightarrow> string list" where
  "str_split sep [] = [[]]"
| "str_split sep (c # cs) =
     (if c = sep then [] # str_split sep cs
      else (case str_split sep cs of
              [] \<Rightarrow> [[c]]
            | piece # pieces \<Rightarrow> (c # piece) # pieces))"

text \<open>\<open>str_join sep xs\<close> is \<open>sep.join(xs)\<close>; it only serves to state what \<open>str_split\<close> returns.\<close>

fun str_join :: "char \<Rightarrow> string list \<Rightarrow> string" where
  "str_join sep [] = []"
| "str_join sep [x] = x"
| "str_join sep (x # y # ys) = x @ sep # str_join sep (y # ys)"

text \<open>\<open>str_replace old new s\<close> is \<open>s.replace(old, new)\<close> for two strings of one character.\<close>

definition str_replace :: "char \<Rightarrow> char \<Rightarrow> string \<Rightarrow> string" where
  "str_replace old new s = map (\<lambda>c. if c = old then new else c) s"

text \<open>\<open>str_int i\<close> is \<open>str(i)\<close> of a Python integer: decimal digits, a minus sign below zero.\<close>

fun digits :: "nat \<Rightarrow> string" where
  "digits n =
     (if n < 10 then [''0123456789'' ! n]
      else digits (n div 10) @ [''0123456789'' ! (n mod 10)])"

declare digits.simps [simp del]

definition str_int :: "int \<Rightarrow> string" where
  "str_int i = (if i < 0 then CHR ''-'' # digits (nat (- i)) else digits (nat i))"

text \<open>
  \<open>format_name template name\<close> is \<open>template.format(name=name)\<close> for a template whose only
  replacement field is \<open>{name}\<close> and that has no other brace, as the ten templates of the
  source are: every occurrence of \<open>{name}\<close> is replaced, the inserted text is not rescanned.
\<close>

function format_name :: "string \<Rightarrow> string \<Rightarrow> string" where
  "format_name [] n = []"
| "format_name (c # cs) n =
     (if take 6 (c # cs) = ''{name}'' then n @ format_name (drop 5 cs) n
      else c # format_name cs n)"
  by pat_completeness auto
termination
  by (relation "measure (\<lambda>(t, n). length t)") auto

subsection \<open>Exceptions\<close>

text \<open>
  The exceptions of class \<open>Exception\<close> that the program can meet. \<open>NotFound\<close> is
  \<open>docker.errors.NotFound\<close>, \<open>OtherException\<close> any other exception raised by the Docker
  client; \<open>ValueError\<close> and \<open>OverflowError\<close> are the two that \<open>time.sleep\<close> raises.
  Each carries the text that \<open>str(e)\<close> shows, a \<open>KeyError\<close> its key.
  \<open>KeyboardInterrupt\<close> is not an \<open>Exception\<close>: it is an item of the event stream below.
\<close>

datatype exn =
    NotFound string
  | KeyError string
  | ValueError string
  | OverflowError string
  | OtherException string

fun exn_str :: "exn \<Rightarrow> string" where
  "exn_str (NotFound m) = m"
| "exn_str (KeyError k) = [CHR 0x27] @ k @ [CHR 0x27]"
| "exn_str (ValueError m) = m"
| "exn_str (OverflowError m) = m"
| "exn_str (OtherException m) = m"

subsection \<open>Configuration and data\<close>

text \<open>
  The attributes of \<open>DockerMonitor\<close> as \<open>__init__\<close> leaves them: the values of the
  environment, with \<open>notification_level\<close> already in lower case and the three numbers
  read by \<open>int\<close>, which accepts a negative number. \<open>health_check_interval\<close> is stored and
  never read.
\<close>

record config =
  webhook_url :: string
  monitored_containers :: string
  notification_level :: string
  health_check_interval :: int
  max_retries :: int
  retry_delay :: int

record EventConfig =
  title :: string
  description :: string
  color :: int

text \<open>The dictionary \<open>self.event_configs\<close>.\<close>

definition event_configs :: "string \<rightharpoonup> EventConfig" where
  "event_configs = map_of
     [(''start'',
        \<lparr>title = [CHR 0xF0, CHR 0x9F, CHR 0x9F, CHR 0xA2] @ '' Container Started: {name}'',
         description = ''Container {name} has started successfully.'',
         color = 0x00FF00\<rparr>),
      (''die'',
        \<lparr>title = [CHR 0xF0, CHR 0x9F, CHR 0x94, CHR 0xB4] @ '' Container Stopped: {name}'',
         description = ''Container {name} has stopped.'',
         color = 0xFF0000\<rparr>),
      (''pause'',
        \<lparr>title = [CHR 0xE2, CHR 0x8F, CHR 0xB8, CHR 0xEF, CHR 0xB8, CHR 0x8F]
                   @ '' Container Paused: {name}'',
         description = ''Container {name} has been paused.'',
         color = 0xFFA500\<rparr>),
      (''unpause'',
        \<lparr>title = [CHR 0xE2, CHR 0x96, CHR 0xB6, CHR 0xEF, CHR 0xB8, CHR 0x8F]
                   @ '' Container Unpaused: {name}'',
         description = ''Container {name} has been unpaused.'',
         color = 0x00FF00\<rparr>),
      (''health_status'',
        \<lparr>title = [CHR 0xF0, CHR 0x9F, CHR 0x8F, CHR 0xA5] @ '' Health Status: {name}'',
         description = ''Health status changed for container {name}.'',
         color = 0x0000FF\<rparr>)]"

text \<open>One entry of the list \<open>fields\<close>: the dictionary with keys name, value and inline.\<close>

record field =
  name :: string
  val :: string
  inline :: bool

text \<open>
  The dictionary \<open>embed\<close>. Its timestamp is kept as the clock reading in seconds; the
  rendering by \<open>time.strftime\<close> is not modelled. The body that is posted is
  \<open>{"embeds": [embed]}\<close>, so the embed stands for the payload.
\<close>

record embed =
  e_title :: string
  e_description :: string
  e_color :: int
  e_fields :: "field list"
  e_timestamp :: int

text \<open>
  What \<open>requests.post\<close> does: it returns a response with a status code, or it raises a
  \<open>RequestException\<close> (the class of every exception that requests raises itself).
\<close>

datatype response = Status int | RequestException string

text \<open>
  The part of a container object that \<open>get_container_status\<close> reads. A key of a
  dictionary that may be missing is an option; the values are the strings that the
  Docker API puts there.
\<close>

record health_attrs =
  Status_key :: "string option"

record state_attrs =
  Health :: "health_attrs option"

record container_attrs =
  State :: "state_attrs option"
  Created :: "string option"
  Platform :: "string option"

record container =
  image_tags :: "string list"
  c_status :: string
  attrs :: container_attrs

text \<open>The dictionary that \<open>get_container_status\<close> returns.\<close>

record container_status =
  st_image :: string
  st_status :: string
  st_health :: string
  st_created :: string
  st_platform :: string

text \<open>
  A decoded event of the stream: the keys the program reads, each possibly missing, with
  the strings that the Docker API puts there. \<open>event['Actor']['Attributes']\<close> is a
  dictionary from strings to strings.
\<close>

record actor =
  Attributes :: "(string \<rightharpoonup> string) option"

record event =
  ev_Type :: "string option"
  ev_Actor :: "actor option"
  ev_Action :: "string option"
  ev_id :: "string option"

subsection \<open>The world\<close>

text \<open>
  The effects of the program, in the order they happen: a call of \<open>containers.get\<close>, a
  POST with the response it got, a \<open>time.sleep\<close>, a call of the logger. The world is the
  clock (\<open>int(time.time())\<close>) and the trace of effects so far. Only \<open>time.sleep\<close> moves
  the clock.
\<close>

datatype level = INFO | WARNING | ERROR

datatype effect =
    Get string
  | Post embed response
  | Sleep int
  | Log level string

record world =
  clock :: int
  trace :: "effect list"

definition emit :: "effect \<Rightarrow> world \<Rightarrow> world" where
  "emit e w = w\<lparr>trace := trace w @ [e]\<rparr>"

text \<open>
  \<open>time.sleep(d)\<close> for an integer \<open>d\<close>, as CPython does it. The seconds are first turned
  into nanoseconds in a signed 64-bit integer, which raises \<open>OverflowError\<close> when the
  product does not fit: the seconds that fit are those from \<open>-9223372036\<close> to
  \<open>9223372036\<close>, the quotient of \<open>2^63 - 1\<close> by \<open>10^9\<close>. A negative number that fits
  raises \<open>ValueError\<close>. Otherwise the call returns after \<open>d\<close> seconds.
\<close>

definition sleep :: "int \<Rightarrow> world \<Rightarrow> exn + world" where
  "sleep d w =
     (if d < - 9223372036 \<or> 9223372036 < d
      then Inl (OverflowError ''timestamp too large to convert to C _PyTime_t'')
      else if d < 0 then Inl (ValueError ''sleep length must be non-negative'')
      else Inr (emit (Sleep d) (w\<lparr>clock := clock w + d\<rparr>)))"

type_synonym sink = "world \<Rightarrow> embed \<Rightarrow> response"
type_synonym runtime = "world \<Rightarrow> string \<Rightarrow> exn + container"

subsection \<open>send_discord_embed\<close>

text \<open>\<open>range_py n\<close> is \<open>range(n)\<close>: empty when \<open>n \<le> 0\<close>.\<close>

definition range_py :: "int \<Rightarrow> int list" where
  "range_py n = map int [0..<nat n]"

text \<open>
  The loop \<open>for attempt in range(self.max_retries)\<close>, over the attempts still to make.
  A response with a code other than 204 is logged and the loop goes on at once; only
  the handler of \<open>RequestException\<close> sleeps, and not after the last attempt. An exception
  of \<open>time.sleep\<close> is raised inside the handler, so it leaves the function.
\<close>

fun send_attempts :: "config \<Rightarrow> sink \<Rightarrow> embed \<Rightarrow> int list \<Rightarrow> world \<Rightarrow> (exn + bool) \<times> world" where
  "send_attempts cfg post_f e [] w = (Inr False, w)"
| "send_attempts cfg post_f e (attempt # rest) w =
     (case post_f w e of
        Status status_code \<Rightarrow>
          (let w1 = emit (Post e (Status status_code)) w in
           if status_code = 204 then (Inr True, w1)
           else send_attempts cfg post_f e rest
                  (emit (Log WARNING (''Discord API returned status code: '' @ str_int status_code)) w1))
      | RequestException msg \<Rightarrow>
          (let w1 = emit (Log ERROR (''Attempt '' @ str_int (attempt + 1) @ ''/''
                                      @ str_int (max_retries cfg) @ '' failed: '' @ msg))
                      (emit (Post e (RequestException msg)) w) in
           if attempt < max_retries cfg - 1 then
             (case sleep (retry_delay cfg) w1 of
                Inl ex \<Rightarrow> (Inl ex, w1)
              | Inr w2 \<Rightarrow> send_attempts cfg post_f e rest w2)
           else send_attempts cfg post_f e rest w1))"

definition send_discord_embed ::
  "config \<Rightarrow> sink \<Rightarrow> string \<Rightarrow> string \<Rightarrow> int \<Rightarrow> field list \<Rightarrow> world \<Rightarrow> (exn + bool) \<times> world" where
  "send_discord_embed cfg post_f ttl descr col flds w =
     send_attempts cfg post_f
       \<lparr>e_title = ttl, e_description = descr, e_color = col, e_fields = flds,
        e_timestamp = clock w\<rparr>
       (range_py (max_retries cfg)) w"

subsection \<open>get_container_status\<close>

text \<open>
  The dictionary built inside the \<open>try\<close>. \<open>attrs['Created']\<close> raises \<open>KeyError\<close> when the
  key is missing; the three \<open>.get\<close> have defaults.
\<close>

definition read_status :: "container \<Rightarrow> exn + container_status" where
  "read_status c =
     (case Created (attrs c) of
        None \<Rightarrow> Inl (KeyError ''Created'')
      | Some created_v \<Rightarrow>
          Inr \<lparr>st_image = (case image_tags c of [] \<Rightarrow> ''untagged'' | t # ts \<Rightarrow> t),
               st_status = c_status c,
               st_health =
                 (case State (attrs c) of
                    None \<Rightarrow> ''N/A''
                  | Some s \<Rightarrow>
                      (case Health s of
                         None \<Rightarrow> ''N/A''
                       | Some h \<Rightarrow> (case Status_key h of None \<Rightarrow> ''N/A'' | Some v \<Rightarrow> v))),
               st_created = str_replace (CHR ''T'') (CHR '' '') (take 19 created_v),
               st_platform = (case Platform (attrs c) of None \<Rightarrow> ''N/A'' | Some p \<Rightarrow> p)\<rparr>)"

definition unknown_status :: container_status where
  "unknown_status =
     \<lparr>st_image = ''unknown'', st_status = ''unknown'', st_health = ''unknown'',
      st_created = ''unknown'', st_platform = ''unknown''\<rparr>"

definition error_status :: container_status where
  "error_status =
     \<lparr>st_image = ''error'', st_status = ''error'', st_health = ''error'',
      st_created = ''error'', st_platform = ''error''\<rparr>"

text \<open>
  The \<open>try\<close> with its two handlers. The result is a sum, as for every function that
  could raise; the handlers are matched in the order of the source.
\<close>

definition get_container_status ::
  "runtime \<Rightarrow> string \<Rightarrow> world \<Rightarrow> (exn + container_status) \<times> world" where
  "get_container_status get_f container_id w =
     (let w1 = emit (Get container_id) w in
      case (case get_f w container_id of Inl ex \<Rightarrow> Inl ex | Inr c \<Rightarrow> read_status c) of
        Inr status \<Rightarrow> (Inr status, w1)
      | Inl (NotFound m) \<Rightarrow> (Inr unknown_status, w1)
      | Inl ex \<Rightarrow>
          (Inr error_status,
           emit (Log ERROR (''Error getting container status: '' @ exn_str ex)) w1))"

subsection \<open>monitor_events\<close>

text \<open>\<open>event['Actor']['Attributes'].get('name', 'unknown')\<close>, given the attributes.\<close>

definition container_name_of :: "(string \<rightharpoonup> string) \<Rightarrow> string" where
  "container_name_of attributes =
     (case attributes ''name'' of None \<Rightarrow> ''unknown'' | Some n \<Rightarrow> n)"

text \<open>The conditions of the two \<open>continue\<close> statements of the filter.\<close>

definition container_skipped :: "config \<Rightarrow> string \<Rightarrow> bool" where
  "container_skipped cfg container_name \<longleftrightarrow>
     monitored_containers cfg \<noteq> ''*''
     \<and> container_name \<notin> set (str_split (CHR '','') (monitored_containers cfg))"

definition action_skipped :: "config \<Rightarrow> string \<Rightarrow> bool" where
  "action_skipped cfg action \<longleftrightarrow>
     notification_level cfg \<noteq> ''all''
     \<and> action \<notin> set (str_split (CHR '','') (notification_level cfg))"

text \<open>The list \<open>fields\<close>, with the exit code appended for the action die.\<close>

definition event_fields ::
  "string \<Rightarrow> container_status \<Rightarrow> int \<Rightarrow> (string \<rightharpoonup> string) \<Rightarrow> field list" where
  "event_fields action status now attributes =
     [\<lparr>name = ''Event'', val = action, inline = True\<rparr>,
      \<lparr>name = ''Image'', val = st_image status, inline = True\<rparr>,
      \<lparr>name = ''Status'', val = st_status status, inline = True\<rparr>,
      \<lparr>name = ''Health'', val = st_health status, inline = True\<rparr>,
      \<lparr>name = ''Platform'', val = st_platform status, inline = True\<rparr>,
      \<lparr>name = ''Timestamp'', val = ''<t:'' @ str_int now @ '':F>'', inline = False\<rparr>]
     @ (if action = ''die''
        then [\<lparr>name = ''Exit Code'',
               val = (case attributes ''exitCode'' of None \<Rightarrow> ''Unknown'' | Some c \<Rightarrow> c),
               inline = False\<rparr>]
        else [])"

text \<open>
  The body of \<open>if action in self.event_configs\<close>: the lookup, the fields, the delivery
  and the log of a failed delivery.
\<close>

definition notify ::
  "config \<Rightarrow> runtime \<Rightarrow> sink \<Rightarrow> event \<Rightarrow> (string \<rightharpoonup> string) \<Rightarrow> string \<Rightarrow> string \<Rightarrow> EventConfig
     \<Rightarrow> world \<Rightarrow> (exn + unit) \<times> world" where
  "notify cfg get_f post_f ev attributes container_name action event_config w =
     (case ev_id ev of
        None \<Rightarrow> (Inl (KeyError ''id''), w)
      | Some container_id \<Rightarrow>
          (case get_container_status get_f container_id w of
             (Inl ex, w1) \<Rightarrow> (Inl ex, w1)
           | (Inr status, w1) \<Rightarrow>
               (case send_discord_embed cfg post_f
                       (format_name (title event_config) container_name)
                       (format_name (description event_config) container_name)
                       (color event_config)
                       (event_fields action status (clock w1) attributes) w1 of
                  (Inl ex, w2) \<Rightarrow> (Inl ex, w2)
                | (Inr delivered, w2) \<Rightarrow>
                    if \<not> delivered
                    then (Inr (), emit (Log ERROR (''Failed to send notification for ''
                                                   @ container_name @ '' '' @ action)) w2)
                    else (Inr (), w2))))"

text \<open>
  The body of the \<open>for\<close> loop for one event. \<open>Inr ()\<close> is the end of the body or a
  \<open>continue\<close>; \<open>Inl\<close> is an exception that leaves the loop.
\<close>

definition process_event ::
  "config \<Rightarrow> runtime \<Rightarrow> sink \<Rightarrow> event \<Rightarrow> world \<Rightarrow> (exn + unit) \<times> world" where
  "process_event cfg get_f post_f ev w =
     (case ev_Type ev of
        None \<Rightarrow> (Inl (KeyError ''Type''), w)
      | Some ty \<Rightarrow>
          if ty \<noteq> ''container'' then (Inr (), w)
          else
            (case ev_Actor ev of
               None \<Rightarrow> (Inl (KeyError ''Actor''), w)
             | Some act \<Rightarrow>
                 (case Attributes act of
                    None \<Rightarrow> (Inl (KeyError ''Attributes''), w)
                  | Some attributes \<Rightarrow>
                      (case ev_Action ev of
                         None \<Rightarrow> (Inl (KeyError ''Action''), w)
                       | Some action \<Rightarrow>
                           if container_skipped cfg (container_name_of attributes) then (Inr (), w)
                           else if action_skipped cfg action then (Inr (), w)
                           else
                             (case event_configs action of
                                None \<Rightarrow> (Inr (), w)
                              | Some event_config \<Rightarrow>
                                  notify cfg get_f post_f ev attributes
                                    (container_name_of attributes) action event_config w)))))"

text \<open>
  An item of the stream \<open>self.client.events(decode=True)\<close>: an event, an interrupt of the
  operator while the loop waits, or an exception raised by the stream itself.
\<close>

datatype item = Event event | Interrupt | Fault exn

datatype raised = KeyboardInterrupt | Exception exn

text \<open>
  The \<open>for\<close> loop over a finite prefix of the stream. \<open>None\<close> means that the prefix is
  consumed and the loop waits for the next item.
\<close>

fun monitor_loop ::
  "config \<Rightarrow> runtime \<Rightarrow> sink \<Rightarrow> item list \<Rightarrow> world \<Rightarrow> raised option \<times> world" where
  "monitor_loop cfg get_f post_f [] w = (None, w)"
| "monitor_loop cfg get_f post_f (Interrupt # rest) w = (Some KeyboardInterrupt, w)"
| "monitor_loop cfg get_f post_f (Fault ex # rest) w = (Some (Exception ex), w)"
| "monitor_loop cfg get_f post_f (Event ev # rest) w =
     (case process_event cfg get_f post_f ev w of
        (Inl ex, w1) \<Rightarrow> (Some (Exception ex), w1)
      | (Inr u, w1) \<Rightarrow> monitor_loop cfg get_f post_f rest w1)"

text \<open>
  \<open>monitor_events\<close>: the two lines logged before the loop, and the two handlers around
  it. After an interrupt the function logs and returns (\<open>Returned\<close>); any other exception
  is logged and raised again (\<open>Reraised\<close>). \<open>Waiting\<close> is the loop still running at the
  end of the prefix.
\<close>

datatype outcome = Waiting | Returned | Reraised exn

definition log_startup :: "config \<Rightarrow> world \<Rightarrow> world" where
  "log_startup cfg w =
     emit (Log INFO (''Monitoring containers: '' @ monitored_containers cfg))
       (emit (Log INFO (''Starting Docker monitor with notification level: ''
                        @ notification_level cfg)) w)"

definition monitor_events ::
  "config \<Rightarrow> runtime \<Rightarrow> sink \<Rightarrow> item list \<Rightarrow> world \<Rightarrow> outcome \<times> world" where
  "monitor_events cfg get_f post_f items w =
     (case monitor_loop cfg get_f post_f items (log_startup cfg w) of
        (None, w1) \<Rightarrow> (Waiting, w1)
      | (Some KeyboardInterrupt, w1) \<Rightarrow>
          (Returned, emit (Log INFO ''Gracefully shutting down Docker monitor...'') w1)
      | (Some (Exception ex), w1) \<Rightarrow>
          (Reraised ex,
           emit (Log ERROR (''Fatal error in event monitoring: '' @ exn_str ex)) w1))"

subsection \<open>Reading a trace\<close>

text \<open>
  The responses of the POSTs of a trace, the embeds they carried, and the lengths of
  its sleeps, in order.
\<close>

fun post_embeds :: "effect list \<Rightarrow> embed list" where
  "post_embeds [] = []"
| "post_embeds (Post e r # es) = e # post_embeds es"
| "post_embeds (x # es) = post_embeds es"

fun post_responses :: "effect list \<Rightarrow> response list" where
  "post_responses [] = []"
| "post_responses (Post e r # es) = r # post_responses es"
| "post_responses (x # es) = post_responses es"

fun sleeps :: "effect list \<Rightarrow> int list" where
  "sleeps [] = []"
| "sleeps (Sleep d # es) = d # sleeps es"
| "sleeps (x # es) = sleeps es"

subsection \<open>Classes of exceptions and of events\<close>

text \<open>\<open>not_found ex\<close>: the exception is a \<open>docker.errors.NotFound\<close>.\<close>

fun not_found :: "exn \<Rightarrow> bool" where
  "not_found (NotFound m) = True"
| "not_found ex = False"


subsection \<open>Concrete inputs\<close>

text \<open>The configuration of the defaults, a starting world, and two webhooks.\<close>

definition cfg0 :: config where
  "cfg0 =
     \<lparr>webhook_url = ''https://discord.example/api/webhooks/1'', monitored_containers = ''*'',
      notification_level = ''all'', health_check_interval = 300, max_retries = 3,
      retry_delay = 5\<rparr>"

definition w0 :: world where
  "w0 = \<lparr>clock = 1700000000, trace = []\<rparr>"

text \<open>\<open>flaky\<close> answers 500 to the first two POSTs and 204 from the third on.\<close>

definition flaky :: sink where
  "flaky w e = (if length (post_responses (trace w)) < 2 then Status 500 else Status 204)"

text \<open>\<open>down\<close> cannot be reached: every POST raises.\<close>

definition down :: sink where
  "down w e = RequestException ''connection refused''"

text \<open>
  The container of the scenario of the specification, a lookup that knows it under the
  identifier abc, and a lookup that fails.
\<close>

definition web_container :: container where
  "web_container =
     \<lparr>image_tags = [''web:latest''], c_status = ''running'',
      attrs = \<lparr>State = Some \<lparr>Health = None\<rparr>,
               Created = Some ''2024-01-01T12:00:00.000Z'',
               Platform = Some ''linux''\<rparr>\<rparr>"

definition rt_web :: runtime where
  "rt_web w container_id =
     (if container_id = ''abc'' then Inr web_container
      else Inl (NotFound ''No such container''))"

definition rt_broken :: runtime where
  "rt_broken w container_id = Inl (OtherException ''connection reset'')"

text \<open>
  Events of the container web with a given action, with and without a name, and an
  event of the network.
\<close>

definition ev_web :: "string \<Rightarrow> event" where
  "ev_web action =
     \<lparr>ev_Type = Some ''container'',
      ev_Actor = Some \<lparr>Attributes = Some [''name'' \<mapsto> ''web'', ''exitCode'' \<mapsto> ''137'']\<rparr>,
      ev_Action = Some action, ev_id = Some ''abc''\<rparr>"

definition ev_nameless :: "string \<Rightarrow> event" where
  "ev_nameless action =
     \<lparr>ev_Type = Some ''container'',
      ev_Actor = Some \<lparr>Attributes = Some [''image'' \<mapsto> ''web:latest'']\<rparr>,
      ev_Action = Some action, ev_id = Some ''abc''\<rparr>"

definition ev_network :: event where
  "ev_network =
     \<lparr>ev_Type = Some ''network'',
      ev_Actor = Some \<lparr>Attributes = Some [''name'' \<mapsto> ''bridge'']\<rparr>,
      ev_Action = Some ''connect'', ev_id = None\<rparr>"

section \<open>Properties\<close>

subsection \<open>Traces\<close>


lemma trace_emit: "trace (emit x w) = trace w @ [x]"
  by (simp add: emit_def)


lemma sleep_Inr:
  "sleep d w = Inr w2 \<Longrightarrow> w2 = emit (Sleep d) (w\<lparr>clock := clock w + d\<rparr>)"
  by (simp add: sleep_def split: if_splits)

subsection \<open>Delivery\<close>





text \<open>
  Claim C2 at its own scenario: the webhook answers 500, 500 and then 204, with three
  attempts allowed and a delay of 5 seconds. The code returns true and has not slept at
  all, where the claim says two sleeps. After transport errors the same loop does sleep:
  with a webhook that is down it returns false after the two sleeps of 5 seconds.
\<close>

theorem send_discord_embed_no_sleep_after_status:
  "fst (send_discord_embed cfg0 flaky ''t'' ''d'' 0 [] w0) = Inr True
   \<and> post_responses (trace (snd (send_discord_embed cfg0 flaky ''t'' ''d'' 0 [] w0)))
       = [Status 500, Status 500, Status 204]
   \<and> sleeps (trace (snd (send_discord_embed cfg0 flaky ''t'' ''d'' 0 [] w0))) = []
   \<and> fst (send_discord_embed cfg0 down ''t'' ''d'' 0 [] w0) = Inr False
   \<and> sleeps (trace (snd (send_discord_embed cfg0 down ''t'' ''d'' 0 [] w0))) = [5, 5]"
  by (simp add: send_discord_embed_def cfg0_def flaky_def down_def w0_def range_py_def upt_rec
      emit_def sleep_def)

subsection \<open>The allow-lists\<close>

text \<open>
  What \<open>str_split\<close> returns is the comma-separated list: joined with the separator the
  pieces give the string back, and no piece holds a separator.
\<close>

lemma str_split_not_Nil: "str_split sep s \<noteq> []"
  by (induction s) (auto split: list.splits)

lemma str_join_split: "str_join sep (str_split sep s) = s"
proof (induction s)
  case Nil
  show ?case by simp
next
  case (Cons c cs)
  obtain p ps where ps: "str_split sep cs = p # ps"
    using str_split_not_Nil [of sep cs] by (cases "str_split sep cs") auto
  show ?case
  proof (cases "c = sep")
    case True
    then show ?thesis using Cons ps by simp
  next
    case False
    then show ?thesis using Cons ps by (cases ps) auto
  qed
qed

lemma str_split_no_sep: "p \<in> set (str_split sep s) \<Longrightarrow> sep \<notin> set p"
proof (induction s arbitrary: p)
  case Nil
  then show ?case by simp
next
  case (Cons c cs)
  then show ?case
    by (cases "str_split sep cs") (auto split: if_splits)
qed

text \<open>
  Claim C3, as the code has it. The wildcard of the container allow-list is \<open>*\<close> and
  accepts every container name; the wildcard of the action allow-list is \<open>all\<close> and
  accepts every action. A container allow-list other than \<open>*\<close> accepts a name if and
  only if the name is one of the pieces between its commas, and an action allow-list
  other than \<open>all\<close> accepts an action if and only if the action is one of its pieces.
\<close>

theorem allow_list_membership:
  "\<not> container_skipped (cfg\<lparr>monitored_containers := ''*''\<rparr>) container_name
   \<and> \<not> action_skipped (cfg\<lparr>notification_level := ''all''\<rparr>) action
   \<and> (names \<noteq> ''*'' \<longrightarrow>
        (\<not> container_skipped (cfg\<lparr>monitored_containers := names\<rparr>) container_name
           \<longleftrightarrow> container_name \<in> set (str_split (CHR '','') names)))
   \<and> (actions \<noteq> ''all'' \<longrightarrow>
        (\<not> action_skipped (cfg\<lparr>notification_level := actions\<rparr>) action
           \<longleftrightarrow> action \<in> set (str_split (CHR '','') actions)))
   \<and> str_join (CHR '','') (str_split (CHR '','') names) = names
   \<and> str_join (CHR '','') (str_split (CHR '','') actions) = actions"
  by (simp add: container_skipped_def action_skipped_def str_join_split)

text \<open>The theorem at the allow-lists \<open>web,db\<close> and \<open>start,die\<close>.\<close>

theorem allow_list_membership_witness:
  "''web,db'' \<noteq> ''*'' \<and> ''start,die'' \<noteq> ''all''
   \<and> \<not> container_skipped (cfg0\<lparr>monitored_containers := ''web,db''\<rparr>) ''db''
   \<and> ''db'' \<in> set (str_split (CHR '','') ''web,db'')
   \<and> container_skipped (cfg0\<lparr>monitored_containers := ''web,db''\<rparr>) ''cache''
   \<and> \<not> action_skipped (cfg0\<lparr>notification_level := ''start,die''\<rparr>) ''die''
   \<and> ''die'' \<in> set (str_split (CHR '','') ''start,die'')
   \<and> action_skipped (cfg0\<lparr>notification_level := ''start,die''\<rparr>) ''pause''"
  using allow_list_membership [of cfg0 "''db''" "''die''" "''web,db''" "''start,die''"]
    allow_list_membership [of cfg0 "''cache''" "''pause''" "''web,db''" "''start,die''"]
  by simp

text \<open>
  Claim C3 as written fails for the action allow-list: with \<open>NOTIFICATION_LEVEL=*\<close> the
  action start is skipped, and a start event of a monitored container leaves no effect.
\<close>

theorem star_is_no_action_wildcard:
  "action_skipped (cfg0\<lparr>notification_level := ''*''\<rparr>) ''start''
   \<and> process_event (cfg0\<lparr>notification_level := ''*''\<rparr>) rt_web flaky (ev_web ''start'') w0
       = (Inr (), w0)"
  by (simp add: action_skipped_def container_skipped_def process_event_def cfg0_def ev_web_def
      container_name_of_def)

subsection \<open>The status lookup\<close>

text \<open>The five keys of \<open>self.event_configs\<close>.\<close>

lemma event_configs_None:
  "event_configs action = None
     \<longleftrightarrow> action \<notin> {''start'', ''die'', ''pause'', ''unpause'', ''health_status''}"
  by (simp add: event_configs_def)

text \<open>
  Claim C4. For every lookup, identifier and world, \<open>get_container_status\<close> returns a
  status and does not raise. When the lookup raises \<open>NotFound\<close> the status is the one
  whose five fields are \<open>unknown\<close>; when it raises any other exception the status is
  the one whose five fields are \<open>error\<close>; the two are different.
\<close>

theorem get_container_status_never_raises:
  "(\<exists>status w'. get_container_status get_f container_id w = (Inr status, w'))
   \<and> (get_f w container_id = Inl (NotFound m) \<longrightarrow>
        fst (get_container_status get_f container_id w) = Inr unknown_status)
   \<and> (get_g v cid = Inl ex \<and> \<not> not_found ex \<longrightarrow>
        fst (get_container_status get_g cid v) = Inr error_status)
   \<and> st_image unknown_status = ''unknown'' \<and> st_status unknown_status = ''unknown''
   \<and> st_health unknown_status = ''unknown'' \<and> st_created unknown_status = ''unknown''
   \<and> st_platform unknown_status = ''unknown''
   \<and> st_image error_status = ''error'' \<and> st_status error_status = ''error''
   \<and> st_health error_status = ''error'' \<and> st_created error_status = ''error''
   \<and> st_platform error_status = ''error''
   \<and> unknown_status \<noteq> error_status"
proof -
  have total: "\<exists>status w'. get_container_status get_f container_id w = (Inr status, w')"
  proof (cases "case get_f w container_id of Inl ex \<Rightarrow> Inl ex | Inr c \<Rightarrow> read_status c")
    case (Inl ex)
    then show ?thesis
      by (cases ex) (simp_all add: get_container_status_def)
  next
    case (Inr status)
    then show ?thesis
      by (simp add: get_container_status_def)
  qed
  have missing: "get_f w container_id = Inl (NotFound m) \<longrightarrow>
      fst (get_container_status get_f container_id w) = Inr unknown_status"
    by (simp add: get_container_status_def)
  have other: "get_g v cid = Inl ex \<and> \<not> not_found ex \<longrightarrow>
      fst (get_container_status get_g cid v) = Inr error_status"
    by (cases ex) (simp_all add: get_container_status_def)
  have sentinels: "unknown_status \<noteq> error_status"
    by (simp add: unknown_status_def error_status_def)
  show ?thesis
    using total missing other sentinels
    by (simp add: unknown_status_def error_status_def)
qed

text \<open>The theorem at a lookup that does not know the container and at one that fails.\<close>

theorem get_container_status_never_raises_witness:
  "rt_web w0 ''gone'' = Inl (NotFound ''No such container'')
   \<and> fst (get_container_status rt_web ''gone'' w0) = Inr unknown_status
   \<and> rt_broken w0 ''abc'' = Inl (OtherException ''connection reset'')
   \<and> \<not> not_found (OtherException ''connection reset'')
   \<and> fst (get_container_status rt_broken ''abc'' w0) = Inr error_status"
proof -
  have h1: "rt_web w0 ''gone'' = Inl (NotFound ''No such container'')"
    by (simp add: rt_web_def)
  have h2: "rt_broken w0 ''abc'' = Inl (OtherException ''connection reset'')
            \<and> \<not> not_found (OtherException ''connection reset'')"
    by (simp add: rt_broken_def)
  show ?thesis
    using h1 h2
      get_container_status_never_raises
        [of rt_web "''gone''" w0 "''No such container''" rt_broken w0 "''abc''"
            "OtherException ''connection reset''"]
    by blast
qed

text \<open>The dictionary of a container that has its creation time.\<close>

lemma read_status_Some:
  assumes "Created (attrs c) = Some created_v"
  shows "read_status c =
     Inr \<lparr>st_image = (case image_tags c of [] \<Rightarrow> ''untagged'' | t # ts \<Rightarrow> t),
          st_status = c_status c,
          st_health =
            (case State (attrs c) of
               None \<Rightarrow> ''N/A''
             | Some s \<Rightarrow>
                 (case Health s of
                    None \<Rightarrow> ''N/A''
                  | Some h \<Rightarrow> (case Status_key h of None \<Rightarrow> ''N/A'' | Some v \<Rightarrow> v))),
          st_created = str_replace (CHR ''T'') (CHR '' '') (take 19 created_v),
          st_platform = (case Platform (attrs c) of None \<Rightarrow> ''N/A'' | Some p \<Rightarrow> p)\<rparr>"
  using assms by (simp add: read_status_def)

lemma health_chain:
  "(case State a of
      None \<Rightarrow> ''N/A''
    | Some s \<Rightarrow>
        (case Health s of
           None \<Rightarrow> ''N/A''
         | Some h \<Rightarrow> (case Status_key h of None \<Rightarrow> ''N/A'' | Some v \<Rightarrow> v)))
   = (case Option.bind (Option.bind (State a) Health) Status_key of
        None \<Rightarrow> ''N/A''
      | Some h \<Rightarrow> h)"
  by (simp split: option.splits)

lemma first_tag:
  "(case tags of [] \<Rightarrow> ''untagged'' | t # ts \<Rightarrow> t)
   = (if tags = [] then ''untagged'' else hd tags)"
  by (cases tags) simp_all

text \<open>
  Claim C8. When the lookup returns a container whose attributes hold the creation time,
  \<open>get_container_status\<close> returns: as image the first tag, or \<open>untagged\<close> without tags;
  the status of the container; as health the value under State, Health, Status, or
  \<open>N/A\<close> when one of the three keys is missing; as creation time the first 19
  characters with every \<open>T\<close> replaced by a space; as platform the value of the key, or
  \<open>N/A\<close> when it is missing.
\<close>

theorem get_container_status_success:
  assumes "get_f w container_id = Inr c"
    and "Created (attrs c) = Some created_v"
  shows "\<exists>status w'.
           get_container_status get_f container_id w = (Inr status, w')
           \<and> st_image status = (if image_tags c = [] then ''untagged'' else hd (image_tags c))
           \<and> st_status status = c_status c
           \<and> st_health status =
               (case Option.bind (Option.bind (State (attrs c)) Health) Status_key of
                  None \<Rightarrow> ''N/A''
                | Some h \<Rightarrow> h)
           \<and> st_created status
               = map (\<lambda>ch. if ch = CHR ''T'' then CHR '' '' else ch) (take 19 created_v)
           \<and> length (st_created status) = min 19 (length created_v)
           \<and> st_platform status = (case Platform (attrs c) of None \<Rightarrow> ''N/A'' | Some p \<Rightarrow> p)"
proof -
  let ?status = "\<lparr>st_image = (case image_tags c of [] \<Rightarrow> ''untagged'' | t # ts \<Rightarrow> t),
          st_status = c_status c,
          st_health =
            (case State (attrs c) of
               None \<Rightarrow> ''N/A''
             | Some s \<Rightarrow>
                 (case Health s of
                    None \<Rightarrow> ''N/A''
                  | Some h \<Rightarrow> (case Status_key h of None \<Rightarrow> ''N/A'' | Some v \<Rightarrow> v))),
          st_created = str_replace (CHR ''T'') (CHR '' '') (take 19 created_v),
          st_platform = (case Platform (attrs c) of None \<Rightarrow> ''N/A'' | Some p \<Rightarrow> p)\<rparr>"
  have r: "get_container_status get_f container_id w = (Inr ?status, emit (Get container_id) w)"
    using assms(1) read_status_Some [OF assms(2)] by (simp add: get_container_status_def)
  have i: "st_image ?status = (if image_tags c = [] then ''untagged'' else hd (image_tags c))"
    by (simp add: first_tag)
  have s: "st_status ?status = c_status c"
    by simp
  have h: "st_health ?status =
             (case Option.bind (Option.bind (State (attrs c)) Health) Status_key of
                None \<Rightarrow> ''N/A''
              | Some h \<Rightarrow> h)"
    by (simp add: health_chain)
  have cr: "st_created ?status
               = map (\<lambda>ch. if ch = CHR ''T'' then CHR '' '' else ch) (take 19 created_v)"
    by (simp add: str_replace_def)
  have l: "length (st_created ?status) = min 19 (length created_v)"
    by (simp add: str_replace_def min.commute)
  have p: "st_platform ?status = (case Platform (attrs c) of None \<Rightarrow> ''N/A'' | Some p \<Rightarrow> p)"
    by simp
  show ?thesis
    using r i s h cr l p by blast
qed

text \<open>The theorem at the container of the scenario of the specification.\<close>

theorem get_container_status_success_witness:
  "rt_web w0 ''abc'' = Inr web_container
   \<and> Created (attrs web_container) = Some ''2024-01-01T12:00:00.000Z''
   \<and> (\<exists>status w'.
         get_container_status rt_web ''abc'' w0 = (Inr status, w')
         \<and> st_image status = ''web:latest''
         \<and> st_status status = ''running''
         \<and> st_health status = ''N/A''
         \<and> st_created status = ''2024-01-01 12:00:00''
         \<and> st_platform status = ''linux'')"
proof -
  have h1: "rt_web w0 ''abc'' = Inr web_container"
    by (simp add: rt_web_def)
  have h2: "Created (attrs web_container) = Some ''2024-01-01T12:00:00.000Z''"
    by (simp add: web_container_def)
  from get_container_status_success
         [of rt_web w0 "''abc''" web_container "''2024-01-01T12:00:00.000Z''", OF h1 h2]
  obtain status w' where
    r: "get_container_status rt_web ''abc'' w0 = (Inr status, w')"
    and i: "st_image status
              = (if image_tags web_container = [] then ''untagged'' else hd (image_tags web_container))"
    and s: "st_status status = c_status web_container"
    and h: "st_health status =
              (case Option.bind (Option.bind (State (attrs web_container)) Health) Status_key of
                 None \<Rightarrow> ''N/A''
               | Some h \<Rightarrow> h)"
    and c: "st_created status
              = map (\<lambda>ch. if ch = CHR ''T'' then CHR '' '' else ch)
                  (take 19 ''2024-01-01T12:00:00.000Z'')"
    and p: "st_platform status
              = (case Platform (attrs web_container) of None \<Rightarrow> ''N/A'' | Some p \<Rightarrow> p)"
    by blast
  have "st_image status = ''web:latest''"
    using i by (simp add: web_container_def)
  moreover have "st_status status = ''running''"
    using s by (simp add: web_container_def)
  moreover have "st_health status = ''N/A''"
    using h by (simp add: web_container_def)
  moreover have "st_created status = ''2024-01-01 12:00:00''"
    using c by simp
  moreover have "st_platform status = ''linux''"
    using p by (simp add: web_container_def)
  ultimately show ?thesis
    using h1 h2 r by blast
qed

subsection \<open>Actions without a template\<close>

text \<open>
  Claim C6. An event whose action is none of start, die, pause, unpause and
  health_status leaves the world as it was: no lookup, no POST, no log. When the
  event has the keys read before the templates are consulted, the body of the loop ends
  without an exception.
\<close>

theorem unknown_action_ignored:
  assumes "action \<notin> {''start'', ''die'', ''pause'', ''unpause'', ''health_status''}"
    and "ev_Action ev = Some action"
  shows "snd (process_event cfg get_f post_f ev w) = w
         \<and> (ev_Type ev = Some ty \<and> ev_Actor ev = Some act \<and> Attributes act = Some attributes
              \<longrightarrow> process_event cfg get_f post_f ev w = (Inr (), w))"
proof -
  have "event_configs action = None"
    using assms(1) by (simp add: event_configs_None)
  then show ?thesis
    using assms(2) by (simp add: process_event_def split: option.splits)
qed

text \<open>The theorem at a create event of the container web.\<close>

theorem unknown_action_ignored_witness:
  "''create'' \<notin> {''start'', ''die'', ''pause'', ''unpause'', ''health_status''}
   \<and> ev_Action (ev_web ''create'') = Some ''create''
   \<and> ev_Type (ev_web ''create'') = Some ''container''
   \<and> ev_Actor (ev_web ''create'')
       = Some \<lparr>Attributes = Some [''name'' \<mapsto> ''web'', ''exitCode'' \<mapsto> ''137'']\<rparr>
   \<and> process_event cfg0 rt_web flaky (ev_web ''create'') w0 = (Inr (), w0)"
proof -
  have h1: "''create'' \<notin> {''start'', ''die'', ''pause'', ''unpause'', ''health_status''}"
    by simp
  have h2: "ev_Action (ev_web ''create'') = Some ''create''"
    by (simp add: ev_web_def)
  have h3: "ev_Type (ev_web ''create'') = Some ''container''"
    by (simp add: ev_web_def)
  have h4: "ev_Actor (ev_web ''create'')
       = Some \<lparr>Attributes = Some [''name'' \<mapsto> ''web'', ''exitCode'' \<mapsto> ''137'']\<rparr>"
    by (simp add: ev_web_def)
  have h5: "Attributes \<lparr>Attributes = Some [''name'' \<mapsto> ''web'', ''exitCode'' \<mapsto> ''137'']\<rparr>
       = Some [''name'' \<mapsto> ''web'', ''exitCode'' \<mapsto> ''137'']"
    by simp
  have imp: "ev_Type (ev_web ''create'') = Some ''container''
      \<and> ev_Actor (ev_web ''create'')
          = Some \<lparr>Attributes = Some [''name'' \<mapsto> ''web'', ''exitCode'' \<mapsto> ''137'']\<rparr>
      \<and> Attributes \<lparr>Attributes = Some [''name'' \<mapsto> ''web'', ''exitCode'' \<mapsto> ''137'']\<rparr>
          = Some [''name'' \<mapsto> ''web'', ''exitCode'' \<mapsto> ''137'']
      \<longrightarrow> process_event cfg0 rt_web flaky (ev_web ''create'') w0 = (Inr (), w0)"
    by (rule conjunct2 [OF unknown_action_ignored [OF h1 h2]])
  have c: "process_event cfg0 rt_web flaky (ev_web ''create'') w0 = (Inr (), w0)"
    by (rule mp [OF imp]) (intro conjI h3 h4 h5)
  show ?thesis
    by (intro conjI h1 h2 h3 h4 c)
qed

subsection \<open>What is posted\<close>

text \<open>Every POST of the retry loop carries the embed the loop was given.\<close>

lemma post_embeds_append: "post_embeds (xs @ ys) = post_embeds xs @ post_embeds ys"
  by (induction xs rule: post_embeds.induct) auto

lemma send_attempts_posts:
  "send_attempts cfg post_f e as w = (r, w')
     \<Longrightarrow> \<exists>new. trace w' = trace w @ new \<and> set (post_embeds new) \<subseteq> {e}"
proof (induction as arbitrary: w)
  case Nil
  then show ?case by simp
next
  case (Cons attempt rest)
  show ?case
  proof (cases "post_f w e")
    case (Status code)
    show ?thesis
    proof (cases "code = 204")
      case True
      with Status Cons.prems have "trace w' = trace w @ [Post e (Status code)]"
        by (auto simp: trace_emit)
      then show ?thesis by auto
    next
      case False
      let ?w1 = "emit (Log WARNING (''Discord API returned status code: '' @ str_int code))
                   (emit (Post e (Status code)) w)"
      have "send_attempts cfg post_f e rest ?w1 = (r, w')"
        using Status False Cons.prems by simp
      from Cons.IH [OF this] obtain new where
        "trace w' = trace ?w1 @ new" and "set (post_embeds new) \<subseteq> {e}"
        by blast
      then have "trace w' = trace w @ ([Post e (Status code),
                   Log WARNING (''Discord API returned status code: '' @ str_int code)] @ new)
                 \<and> set (post_embeds ([Post e (Status code),
                   Log WARNING (''Discord API returned status code: '' @ str_int code)] @ new))
                     \<subseteq> {e}"
        by (simp add: trace_emit)
      then show ?thesis by blast
    qed
  next
    case (RequestException msg)
    let ?w1 = "emit (Log ERROR (''Attempt '' @ str_int (attempt + 1) @ ''/''
                                 @ str_int (max_retries cfg) @ '' failed: '' @ msg))
                 (emit (Post e (RequestException msg)) w)"
    let ?pre = "[Post e (RequestException msg),
                 Log ERROR (''Attempt '' @ str_int (attempt + 1) @ ''/''
                            @ str_int (max_retries cfg) @ '' failed: '' @ msg)]"
    have t1: "trace ?w1 = trace w @ ?pre"
      by (simp add: trace_emit)
    show ?thesis
    proof (cases "attempt < max_retries cfg - 1")
      case False
      then have "send_attempts cfg post_f e rest ?w1 = (r, w')"
        using RequestException Cons.prems by simp
      from Cons.IH [OF this] obtain new where
        "trace w' = trace ?w1 @ new" and "set (post_embeds new) \<subseteq> {e}"
        by blast
      then have "trace w' = trace w @ (?pre @ new) \<and> set (post_embeds (?pre @ new)) \<subseteq> {e}"
        using t1 by simp
      then show ?thesis by blast
    next
      case True
      show ?thesis
      proof (cases "sleep (retry_delay cfg) ?w1")
        case (Inl ex)
        then have "w' = ?w1"
          using RequestException True Cons.prems by (simp add: Let_def)
        then have "trace w' = trace w @ ?pre \<and> set (post_embeds ?pre) \<subseteq> {e}"
          using t1 by simp
        then show ?thesis by blast
      next
        case (Inr w2)
        let ?w2 = "emit (Sleep (retry_delay cfg)) (?w1\<lparr>clock := clock ?w1 + retry_delay cfg\<rparr>)"
        have "w2 = ?w2"
          using sleep_Inr [OF Inr] .
        then have "send_attempts cfg post_f e rest ?w2 = (r, w')"
          using RequestException True Inr Cons.prems by (simp add: Let_def)
        from Cons.IH [OF this] obtain new where
          "trace w' = trace ?w2 @ new" and "set (post_embeds new) \<subseteq> {e}"
          by blast
        then have "trace w' = trace w @ (?pre @ Sleep (retry_delay cfg) # new)
                   \<and> set (post_embeds (?pre @ Sleep (retry_delay cfg) # new)) \<subseteq> {e}"
          by (simp add: trace_emit)
        then show ?thesis by blast
      qed
    qed
  qed
qed

text \<open>
  The lookup returns a status, adds its call and at most one log line to the trace, and
  leaves the clock alone.
\<close>

lemma get_container_status_cases:
  assumes "get_container_status get_f container_id w = (r, w1)"
  shows "\<exists>status. r = Inr status
           \<and> (w1 = emit (Get container_id) w
                \<or> (\<exists>m. w1 = emit (Log ERROR m) (emit (Get container_id) w)))"
proof (cases "get_f w container_id")
  case (Inl ex)
  then show ?thesis
    using assms by (cases ex) (auto simp: get_container_status_def)
next
  case (Inr c)
  then show ?thesis
    using assms
    by (cases "Created (attrs c)") (auto simp: get_container_status_def read_status_def)
qed

lemma get_container_status_trace:
  assumes "get_container_status get_f container_id w = (r, w1)"
  shows "\<exists>status pre. r = Inr status \<and> trace w1 = trace w @ Get container_id # pre
           \<and> post_embeds pre = [] \<and> clock w1 = clock w"
proof -
  from get_container_status_cases [OF assms] obtain status where
    r: "r = Inr status"
    and w1: "w1 = emit (Get container_id) w
             \<or> (\<exists>m. w1 = emit (Log ERROR m) (emit (Get container_id) w))"
    by blast
  from w1 show ?thesis
  proof
    assume "w1 = emit (Get container_id) w"
    then have "r = Inr status \<and> trace w1 = trace w @ Get container_id # []
               \<and> post_embeds [] = [] \<and> clock w1 = clock w"
      using r by (simp add: emit_def)
    then show ?thesis by blast
  next
    assume "\<exists>m. w1 = emit (Log ERROR m) (emit (Get container_id) w)"
    then obtain m where "w1 = emit (Log ERROR m) (emit (Get container_id) w)"
      by blast
    then have "r = Inr status \<and> trace w1 = trace w @ Get container_id # [Log ERROR m]
               \<and> post_embeds [Log ERROR m] = [] \<and> clock w1 = clock w"
      using r by (simp add: emit_def)
    then show ?thesis by blast
  qed
qed

text \<open>
  The embeds posted for one event: each holds the two texts of the template of the
  action with the name of the container filled in, the colour of the template, and the
  fields built from the status that the lookup returned.
\<close>

lemma send_discord_embed_posts:
  assumes "send_discord_embed cfg post_f ttl descr col flds w = (r, w')"
  shows "\<exists>new. trace w' = trace w @ new
           \<and> (\<forall>e\<in>set (post_embeds new).
                 e_title e = ttl \<and> e_description e = descr \<and> e_color e = col
                 \<and> e_fields e = flds)"
proof -
  let ?e = "\<lparr>e_title = ttl, e_description = descr, e_color = col, e_fields = flds,
             e_timestamp = clock w\<rparr>"
  have "send_attempts cfg post_f ?e (range_py (max_retries cfg)) w = (r, w')"
    using assms by (simp add: send_discord_embed_def)
  from send_attempts_posts [OF this] obtain new where
    t: "trace w' = trace w @ new" and p: "set (post_embeds new) \<subseteq> {?e}"
    by blast
  have "\<forall>e\<in>set (post_embeds new).
          e_title e = ttl \<and> e_description e = descr \<and> e_color e = col \<and> e_fields e = flds"
    using p by auto
  with t show ?thesis by blast
qed

lemma notify_posts:
  assumes "notify cfg get_f post_f ev attributes container_name action event_config w = (r, w')"
  shows "\<exists>new. trace w' = trace w @ new
           \<and> (\<forall>e\<in>set (post_embeds new).
                 \<exists>container_id status w1.
                   ev_id ev = Some container_id
                   \<and> get_container_status get_f container_id w = (Inr status, w1)
                   \<and> e_title e = format_name (title event_config) container_name
                   \<and> e_description e = format_name (description event_config) container_name
                   \<and> e_color e = color event_config
                   \<and> e_fields e = event_fields action status (clock w1) attributes)"
proof (cases "ev_id ev")
  case None
  then have "w' = w"
    using assms by (simp add: notify_def)
  then have "trace w' = trace w @ [] \<and> post_embeds [] = []"
    by simp
  then show ?thesis by fastforce
next
  case (Some container_id)
  obtain rs w1 where g: "get_container_status get_f container_id w = (rs, w1)"
    by (cases "get_container_status get_f container_id w") simp
  from get_container_status_trace [OF g] obtain status pre where
    rs: "rs = Inr status"
    and t1: "trace w1 = trace w @ Get container_id # pre"
    and p1: "post_embeds pre = []"
    by blast
  let ?ttl = "format_name (title event_config) container_name"
  let ?descr = "format_name (description event_config) container_name"
  let ?flds = "event_fields action status (clock w1) attributes"
  obtain rd w2 where
    d: "send_discord_embed cfg post_f ?ttl ?descr (color event_config) ?flds w1 = (rd, w2)"
    by (cases "send_discord_embed cfg post_f ?ttl ?descr (color event_config) ?flds w1") simp
  from send_discord_embed_posts [OF d] obtain new2 where
    t2: "trace w2 = trace w1 @ new2"
    and p2: "\<forall>e\<in>set (post_embeds new2).
               e_title e = ?ttl \<and> e_description e = ?descr \<and> e_color e = color event_config
               \<and> e_fields e = ?flds"
    by blast
  have "w' = w2 \<or> (\<exists>m. w' = emit (Log ERROR m) w2)"
    using assms Some g rs d by (cases rd) (auto simp: notify_def split: if_splits)
  then obtain tail where t3: "trace w' = trace w2 @ tail" and p3: "post_embeds tail = []"
  proof
    assume "w' = w2"
    then have "trace w' = trace w2 @ [] \<and> post_embeds [] = []"
      by simp
    then show ?thesis using that by blast
  next
    assume "\<exists>m. w' = emit (Log ERROR m) w2"
    then obtain m where "w' = emit (Log ERROR m) w2"
      by blast
    then have "trace w' = trace w2 @ [Log ERROR m] \<and> post_embeds [Log ERROR m] = []"
      by (simp add: trace_emit)
    then show ?thesis using that by blast
  qed
  let ?new = "Get container_id # pre @ new2 @ tail"
  have t: "trace w' = trace w @ ?new"
    using t1 t2 t3 by simp
  have pe: "post_embeds ?new = post_embeds new2"
    using p1 p3 by (simp add: post_embeds_append)
  have "\<forall>e\<in>set (post_embeds ?new).
          \<exists>container_id status w1.
            ev_id ev = Some container_id
            \<and> get_container_status get_f container_id w = (Inr status, w1)
            \<and> e_title e = ?ttl \<and> e_description e = ?descr \<and> e_color e = color event_config
            \<and> e_fields e = event_fields action status (clock w1) attributes"
    using p2 Some g rs unfolding pe by blast
  with t show ?thesis by blast
qed

lemma process_event_posts:
  assumes "process_event cfg get_f post_f ev w = (r, w')"
  shows "\<exists>new. trace w' = trace w @ new
           \<and> (\<forall>e\<in>set (post_embeds new).
                 \<exists>act attributes action event_config container_id status w1.
                   ev_Actor ev = Some act \<and> Attributes act = Some attributes
                   \<and> ev_Action ev = Some action \<and> event_configs action = Some event_config
                   \<and> ev_id ev = Some container_id
                   \<and> get_container_status get_f container_id w = (Inr status, w1)
                   \<and> e_title e = format_name (title event_config) (container_name_of attributes)
                   \<and> e_description e
                       = format_name (description event_config) (container_name_of attributes)
                   \<and> e_color e = color event_config
                   \<and> e_fields e = event_fields action status (clock w1) attributes)"
proof -
  have quiet: "w' = w \<Longrightarrow> ?thesis"
  proof -
    assume "w' = w"
    then have "trace w' = trace w @ [] \<and> post_embeds [] = []"
      by simp
    then show ?thesis by fastforce
  qed
  show ?thesis
  proof (cases "\<exists>act attributes action event_config.
                  ev_Type ev = Some ''container'' \<and> ev_Actor ev = Some act
                  \<and> Attributes act = Some attributes \<and> ev_Action ev = Some action
                  \<and> \<not> container_skipped cfg (container_name_of attributes)
                  \<and> \<not> action_skipped cfg action
                  \<and> event_configs action = Some event_config")
    case False
    then have "w' = w"
      using assms by (auto simp: process_event_def split: option.splits if_splits)
    then show ?thesis by (rule quiet)
  next
    case True
    then obtain act attributes action event_config where
      k: "ev_Type ev = Some ''container''" "ev_Actor ev = Some act"
         "Attributes act = Some attributes" "ev_Action ev = Some action"
         "\<not> container_skipped cfg (container_name_of attributes)"
         "\<not> action_skipped cfg action"
         "event_configs action = Some event_config"
      by blast
    then have "notify cfg get_f post_f ev attributes (container_name_of attributes) action
                 event_config w = (r, w')"
      using assms by (simp add: process_event_def)
    from notify_posts [OF this] obtain new where
      t: "trace w' = trace w @ new"
      and p: "\<forall>e\<in>set (post_embeds new).
                 \<exists>container_id status w1.
                   ev_id ev = Some container_id
                   \<and> get_container_status get_f container_id w = (Inr status, w1)
                   \<and> e_title e = format_name (title event_config) (container_name_of attributes)
                   \<and> e_description e
                       = format_name (description event_config) (container_name_of attributes)
                   \<and> e_color e = color event_config
                   \<and> e_fields e = event_fields action status (clock w1) attributes"
      by blast
    have "\<forall>e\<in>set (post_embeds new).
                 \<exists>act attributes action event_config container_id status w1.
                   ev_Actor ev = Some act \<and> Attributes act = Some attributes
                   \<and> ev_Action ev = Some action \<and> event_configs action = Some event_config
                   \<and> ev_id ev = Some container_id
                   \<and> get_container_status get_f container_id w = (Inr status, w1)
                   \<and> e_title e = format_name (title event_config) (container_name_of attributes)
                   \<and> e_description e
                       = format_name (description event_config) (container_name_of attributes)
                   \<and> e_color e = color event_config
                   \<and> e_fields e = event_fields action status (clock w1) attributes"
      using p k(2,3,4,7) by blast
    with t show ?thesis by blast
  qed
qed

text \<open>
  Claim C7. Every embed posted for an event holds the fields Event, Image, Status, Health
  and Platform, in this order and each inline, then the field Timestamp, not inline,
  whose value is the clock read after the lookup; and exactly when the action is die one
  more field follows as the last one, not inline, named Exit Code, whose value is the
  attribute exitCode of the event or \<open>Unknown\<close> when the event has none.
\<close>

theorem notification_fields:
  assumes "process_event cfg get_f post_f ev w = (r, w')"
    and "ev_Actor ev = Some act"
    and "Attributes act = Some attributes"
    and "ev_Action ev = Some action"
    and "ev_id ev = Some container_id"
    and "get_container_status get_f container_id w = (Inr status, w1)"
  shows "\<exists>new. trace w' = trace w @ new
           \<and> (\<forall>e\<in>set (post_embeds new).
                 e_fields e =
                   [\<lparr>name = ''Event'', val = action, inline = True\<rparr>,
                    \<lparr>name = ''Image'', val = st_image status, inline = True\<rparr>,
                    \<lparr>name = ''Status'', val = st_status status, inline = True\<rparr>,
                    \<lparr>name = ''Health'', val = st_health status, inline = True\<rparr>,
                    \<lparr>name = ''Platform'', val = st_platform status, inline = True\<rparr>,
                    \<lparr>name = ''Timestamp'', val = ''<t:'' @ str_int (clock w1) @ '':F>'',
                     inline = False\<rparr>]
                   @ (if action = ''die''
                      then [\<lparr>name = ''Exit Code'',
                             val = (case attributes ''exitCode'' of
                                      None \<Rightarrow> ''Unknown''
                                    | Some c \<Rightarrow> c),
                             inline = False\<rparr>]
                      else []))"
proof -
  from process_event_posts [OF assms(1)] obtain new where
    t: "trace w' = trace w @ new"
    and p: "\<forall>e\<in>set (post_embeds new).
                 \<exists>act attributes action event_config container_id status w1.
                   ev_Actor ev = Some act \<and> Attributes act = Some attributes
                   \<and> ev_Action ev = Some action \<and> event_configs action = Some event_config
                   \<and> ev_id ev = Some container_id
                   \<and> get_container_status get_f container_id w = (Inr status, w1)
                   \<and> e_title e = format_name (title event_config) (container_name_of attributes)
                   \<and> e_description e
                       = format_name (description event_config) (container_name_of attributes)
                   \<and> e_color e = color event_config
                   \<and> e_fields e = event_fields action status (clock w1) attributes"
    by blast
  have "\<forall>e\<in>set (post_embeds new).
          e_fields e = event_fields action status (clock w1) attributes"
  proof
    fix e
    assume "e \<in> set (post_embeds new)"
    with p obtain act' attributes' action' container_id' status' w1' where
      "ev_Actor ev = Some act'" "Attributes act' = Some attributes'"
      "ev_Action ev = Some action'" "ev_id ev = Some container_id'"
      "get_container_status get_f container_id' w = (Inr status', w1')"
      "e_fields e = event_fields action' status' (clock w1') attributes'"
      by blast
    with assms(2-6) show "e_fields e = event_fields action status (clock w1) attributes"
      by simp
  qed
  then show ?thesis
    using t unfolding event_fields_def by blast
qed

text \<open>
  The theorem at a die event of the container web with exit code 137: three POSTs are
  made, and the last field of each is the exit code.
\<close>

theorem notification_fields_witness:
  "ev_Actor (ev_web ''die'')
     = Some \<lparr>Attributes = Some [''name'' \<mapsto> ''web'', ''exitCode'' \<mapsto> ''137'']\<rparr>
   \<and> ev_Action (ev_web ''die'') = Some ''die''
   \<and> ev_id (ev_web ''die'') = Some ''abc''
   \<and> get_container_status rt_web ''abc'' w0
       = (Inr \<lparr>st_image = ''web:latest'', st_status = ''running'', st_health = ''N/A'',
               st_created = ''2024-01-01 12:00:00'', st_platform = ''linux''\<rparr>,
          emit (Get ''abc'') w0)
   \<and> (\<exists>new. trace (snd (process_event cfg0 rt_web flaky (ev_web ''die'') w0)) = trace w0 @ new
         \<and> (\<forall>e\<in>set (post_embeds new).
               e_fields e =
                 [\<lparr>name = ''Event'', val = ''die'', inline = True\<rparr>,
                  \<lparr>name = ''Image'', val = ''web:latest'', inline = True\<rparr>,
                  \<lparr>name = ''Status'', val = ''running'', inline = True\<rparr>,
                  \<lparr>name = ''Health'', val = ''N/A'', inline = True\<rparr>,
                  \<lparr>name = ''Platform'', val = ''linux'', inline = True\<rparr>,
                  \<lparr>name = ''Timestamp'', val = ''<t:1700000000:F>'', inline = False\<rparr>,
                  \<lparr>name = ''Exit Code'', val = ''137'', inline = False\<rparr>]))
   \<and> length (post_embeds (trace (snd (process_event cfg0 rt_web flaky (ev_web ''die'') w0)))) = 3"
proof -
  have h1: "process_event cfg0 rt_web flaky (ev_web ''die'') w0
              = (fst (process_event cfg0 rt_web flaky (ev_web ''die'') w0),
                 snd (process_event cfg0 rt_web flaky (ev_web ''die'') w0))"
    by simp
  have h2: "ev_Actor (ev_web ''die'')
              = Some \<lparr>Attributes = Some [''name'' \<mapsto> ''web'', ''exitCode'' \<mapsto> ''137'']\<rparr>"
    by (simp add: ev_web_def)
  have h3: "Attributes \<lparr>Attributes = Some [''name'' \<mapsto> ''web'', ''exitCode'' \<mapsto> ''137'']\<rparr>
              = Some [''name'' \<mapsto> ''web'', ''exitCode'' \<mapsto> ''137'']"
    by simp
  have h4: "ev_Action (ev_web ''die'') = Some ''die''"
    by (simp add: ev_web_def)
  have h5: "ev_id (ev_web ''die'') = Some ''abc''"
    by (simp add: ev_web_def)
  have h6: "get_container_status rt_web ''abc'' w0
       = (Inr \<lparr>st_image = ''web:latest'', st_status = ''running'', st_health = ''N/A'',
               st_created = ''2024-01-01 12:00:00'', st_platform = ''linux''\<rparr>,
          emit (Get ''abc'') w0)"
    by (simp add: get_container_status_def read_status_def rt_web_def web_container_def
        str_replace_def)
  have c: "\<exists>new. trace (snd (process_event cfg0 rt_web flaky (ev_web ''die'') w0)) = trace w0 @ new
         \<and> (\<forall>e\<in>set (post_embeds new).
               e_fields e =
                 [\<lparr>name = ''Event'', val = ''die'', inline = True\<rparr>,
                  \<lparr>name = ''Image'', val = ''web:latest'', inline = True\<rparr>,
                  \<lparr>name = ''Status'', val = ''running'', inline = True\<rparr>,
                  \<lparr>name = ''Health'', val = ''N/A'', inline = True\<rparr>,
                  \<lparr>name = ''Platform'', val = ''linux'', inline = True\<rparr>,
                  \<lparr>name = ''Timestamp'', val = ''<t:1700000000:F>'', inline = False\<rparr>,
                  \<lparr>name = ''Exit Code'', val = ''137'', inline = False\<rparr>])"
    using notification_fields [OF h1 h2 h3 h4 h5 h6]
    by (simp add: emit_def w0_def str_int_def digits.simps)
  have n: "length (post_embeds (trace (snd (process_event cfg0 rt_web flaky (ev_web ''die'') w0))))
             = 3"
    by (simp add: process_event_def notify_def get_container_status_def read_status_def
        send_discord_embed_def cfg0_def flaky_def w0_def rt_web_def web_container_def ev_web_def
        container_skipped_def action_skipped_def container_name_of_def event_configs_def
        range_py_def upt_rec emit_def Let_def)
  show ?thesis
    by (intro conjI h2 h4 h5 h6 c n)
qed

subsection \<open>Events without a name\<close>

text \<open>
  Claim C10. For a container event whose attributes have no name, the name of the
  container is \<open>unknown\<close>. Under a container allow-list that is not the wildcard and
  does not contain \<open>unknown\<close> the event leaves no effect and is skipped; and every embed
  posted for the event has the title and the description of the template with
  \<open>unknown\<close> filled in.
\<close>

theorem nameless_event_unknown:
  assumes "ev_Type ev = Some ''container''"
    and "ev_Actor ev = Some act"
    and "Attributes act = Some attributes"
    and "attributes ''name'' = None"
  shows "container_name_of attributes = ''unknown''
         \<and> (monitored_containers cfg \<noteq> ''*''
              \<and> ''unknown'' \<notin> set (str_split (CHR '','') (monitored_containers cfg))
            \<longrightarrow> snd (process_event cfg get_f post_f ev w) = w
                \<and> (ev_Action ev = Some action
                     \<longrightarrow> process_event cfg get_f post_f ev w = (Inr (), w)))
         \<and> (ev_Action ev = Some action \<and> event_configs action = Some event_config
              \<and> process_event cfg' get_f post_f ev w = (r, w')
            \<longrightarrow> (\<exists>new. trace w' = trace w @ new
                   \<and> (\<forall>e\<in>set (post_embeds new).
                         e_title e = format_name (title event_config) ''unknown''
                         \<and> e_description e
                             = format_name (description event_config) ''unknown'')))"
proof -
  have n: "container_name_of attributes = ''unknown''"
    using assms(4) by (simp add: container_name_of_def)
  have f: "monitored_containers cfg \<noteq> ''*''
              \<and> ''unknown'' \<notin> set (str_split (CHR '','') (monitored_containers cfg))
            \<longrightarrow> snd (process_event cfg get_f post_f ev w) = w
                \<and> (ev_Action ev = Some action
                     \<longrightarrow> process_event cfg get_f post_f ev w = (Inr (), w))"
    using assms(1-3) n
    by (simp add: process_event_def container_skipped_def split: option.splits)
  have t: "ev_Action ev = Some action \<and> event_configs action = Some event_config
              \<and> process_event cfg' get_f post_f ev w = (r, w')
            \<longrightarrow> (\<exists>new. trace w' = trace w @ new
                   \<and> (\<forall>e\<in>set (post_embeds new).
                         e_title e = format_name (title event_config) ''unknown''
                         \<and> e_description e
                             = format_name (description event_config) ''unknown''))"
  proof
    assume a: "ev_Action ev = Some action \<and> event_configs action = Some event_config
               \<and> process_event cfg' get_f post_f ev w = (r, w')"
    then have "process_event cfg' get_f post_f ev w = (r, w')"
      by simp
    from process_event_posts [OF this] obtain new where
      tr: "trace w' = trace w @ new"
      and p: "\<forall>e\<in>set (post_embeds new).
                 \<exists>act attributes action event_config container_id status w1.
                   ev_Actor ev = Some act \<and> Attributes act = Some attributes
                   \<and> ev_Action ev = Some action \<and> event_configs action = Some event_config
                   \<and> ev_id ev = Some container_id
                   \<and> get_container_status get_f container_id w = (Inr status, w1)
                   \<and> e_title e = format_name (title event_config) (container_name_of attributes)
                   \<and> e_description e
                       = format_name (description event_config) (container_name_of attributes)
                   \<and> e_color e = color event_config
                   \<and> e_fields e = event_fields action status (clock w1) attributes"
      by blast
    have "\<forall>e\<in>set (post_embeds new).
            e_title e = format_name (title event_config) ''unknown''
            \<and> e_description e = format_name (description event_config) ''unknown''"
    proof
      fix e
      assume "e \<in> set (post_embeds new)"
      with p obtain act' attributes' action' event_config' where
        "ev_Actor ev = Some act'" "Attributes act' = Some attributes'"
        "ev_Action ev = Some action'" "event_configs action' = Some event_config'"
        "e_title e = format_name (title event_config') (container_name_of attributes')"
        "e_description e
           = format_name (description event_config') (container_name_of attributes')"
        by blast
      with assms(2,3) a n
      show "e_title e = format_name (title event_config) ''unknown''
            \<and> e_description e = format_name (description event_config) ''unknown''"
        by simp
    qed
    with tr show "\<exists>new. trace w' = trace w @ new
                   \<and> (\<forall>e\<in>set (post_embeds new).
                         e_title e = format_name (title event_config) ''unknown''
                         \<and> e_description e
                             = format_name (description event_config) ''unknown'')"
      by blast
  qed
  show ?thesis
    by (intro conjI n f t)
qed

text \<open>
  The theorem at a start event without a name: skipped under the allow-list \<open>web,db\<close>,
  announced as the container unknown under the wildcard.
\<close>

theorem nameless_event_unknown_witness:
  "ev_Type (ev_nameless ''start'') = Some ''container''
   \<and> ev_Actor (ev_nameless ''start'') = Some \<lparr>Attributes = Some [''image'' \<mapsto> ''web:latest'']\<rparr>
   \<and> [''image'' \<mapsto> ''web:latest''] ''name'' = None
   \<and> container_name_of [''image'' \<mapsto> ''web:latest''] = ''unknown''
   \<and> process_event (cfg0\<lparr>monitored_containers := ''web,db''\<rparr>) rt_web flaky
        (ev_nameless ''start'') w0 = (Inr (), w0)
   \<and> (\<exists>new. trace (snd (process_event cfg0 rt_web flaky (ev_nameless ''start'') w0))
              = trace w0 @ new
         \<and> (\<forall>e\<in>set (post_embeds new).
               e_title e
                 = [CHR 0xF0, CHR 0x9F, CHR 0x9F, CHR 0xA2] @ '' Container Started: unknown''
               \<and> e_description e = ''Container unknown has started successfully.''))
   \<and> length (post_embeds (trace (snd (process_event cfg0 rt_web flaky (ev_nameless ''start'') w0))))
       = 3"
proof -
  have h1: "ev_Type (ev_nameless ''start'') = Some ''container''"
    by (simp add: ev_nameless_def)
  have h2: "ev_Actor (ev_nameless ''start'')
              = Some \<lparr>Attributes = Some [''image'' \<mapsto> ''web:latest'']\<rparr>"
    by (simp add: ev_nameless_def)
  have h3: "Attributes \<lparr>Attributes = Some [''image'' \<mapsto> ''web:latest'']\<rparr>
              = Some [''image'' \<mapsto> ''web:latest'']"
    by simp
  have h4: "[''image'' \<mapsto> ''web:latest''] ''name'' = None"
    by simp
  have h5: "ev_Action (ev_nameless ''start'') = Some ''start''"
    by (simp add: ev_nameless_def)
  have h6: "event_configs ''start''
              = Some \<lparr>title = [CHR 0xF0, CHR 0x9F, CHR 0x9F, CHR 0xA2]
                                @ '' Container Started: {name}'',
                      description = ''Container {name} has started successfully.'',
                      color = 0x00FF00\<rparr>"
    by (simp add: event_configs_def)
  have h7: "monitored_containers (cfg0\<lparr>monitored_containers := ''web,db''\<rparr>) \<noteq> ''*''
            \<and> ''unknown'' \<notin> set (str_split (CHR '','')
                  (monitored_containers (cfg0\<lparr>monitored_containers := ''web,db''\<rparr>)))"
    by simp
  have h8: "process_event cfg0 rt_web flaky (ev_nameless ''start'') w0
              = (fst (process_event cfg0 rt_web flaky (ev_nameless ''start'') w0),
                 snd (process_event cfg0 rt_web flaky (ev_nameless ''start'') w0))"
    by simp
  note T = nameless_event_unknown [OF h1 h2 h3 h4,
      where cfg = "cfg0\<lparr>monitored_containers := ''web,db''\<rparr>" and get_f = rt_web
        and post_f = flaky and w = w0 and action = "''start''" and cfg' = cfg0
        and event_config = "\<lparr>title = [CHR 0xF0, CHR 0x9F, CHR 0x9F, CHR 0xA2]
                                @ '' Container Started: {name}'',
                      description = ''Container {name} has started successfully.'',
                      color = 0x00FF00\<rparr>"
        and r = "fst (process_event cfg0 rt_web flaky (ev_nameless ''start'') w0)"
        and w' = "snd (process_event cfg0 rt_web flaky (ev_nameless ''start'') w0)"]
  have n: "container_name_of [''image'' \<mapsto> ''web:latest''] = ''unknown''"
    by (rule conjunct1 [OF T])
  have f: "process_event (cfg0\<lparr>monitored_containers := ''web,db''\<rparr>) rt_web flaky
             (ev_nameless ''start'') w0 = (Inr (), w0)"
    using mp [OF conjunct1 [OF conjunct2 [OF T]] h7] h5 by simp
  have t: "\<exists>new. trace (snd (process_event cfg0 rt_web flaky (ev_nameless ''start'') w0))
              = trace w0 @ new
         \<and> (\<forall>e\<in>set (post_embeds new).
               e_title e
                 = [CHR 0xF0, CHR 0x9F, CHR 0x9F, CHR 0xA2] @ '' Container Started: unknown''
               \<and> e_description e = ''Container unknown has started successfully.'')"
    using mp [OF conjunct2 [OF conjunct2 [OF T]], OF conjI [OF h5 conjI [OF h6 h8]]]
    by simp
  have l: "length (post_embeds (trace (snd (process_event cfg0 rt_web flaky
             (ev_nameless ''start'') w0)))) = 3"
    by (simp add: process_event_def notify_def get_container_status_def read_status_def
        send_discord_embed_def cfg0_def flaky_def w0_def rt_web_def web_container_def
        ev_nameless_def container_skipped_def action_skipped_def container_name_of_def
        event_configs_def range_py_def upt_rec emit_def Let_def)
  show ?thesis
    by (intro conjI h1 h2 h4 n f t l)
qed

subsection \<open>The loop\<close>

text \<open>
  The loop over a stream in two parts: the second part is read in the world the first
  part left, unless the first part raised.
\<close>

lemma monitor_loop_append:
  "monitor_loop cfg get_f post_f (xs @ ys) w =
     (case monitor_loop cfg get_f post_f xs w of
        (None, w1) \<Rightarrow> monitor_loop cfg get_f post_f ys w1
      | (Some x, w1) \<Rightarrow> (Some x, w1))"
proof (induction xs arbitrary: w)
  case Nil
  show ?case by simp
next
  case (Cons x xs)
  show ?case
  proof (cases x)
    case (Event ev)
    obtain r w1 where p: "process_event cfg get_f post_f ev w = (r, w1)"
      by (cases "process_event cfg get_f post_f ev w") simp
    show ?thesis
      using Event p Cons.IH [of w1] by (cases r) simp_all
  next
    case Interrupt
    then show ?thesis by simp
  next
    case (Fault ex)
    then show ?thesis by simp
  qed
qed

text \<open>An exception that leaves the loop is logged as fatal and raised again.\<close>

lemma monitor_events_fatal:
  assumes "monitor_loop cfg get_f post_f items (log_startup cfg w) = (Some (Exception ex), w1)"
  shows "monitor_events cfg get_f post_f items w
           = (Reraised ex, emit (Log ERROR (''Fatal error in event monitoring: '' @ exn_str ex)) w1)"
  using assms by (simp add: monitor_events_def)

text \<open>What a container event with a missing key does to the body of the loop.\<close>

lemma process_event_lacks_key:
  assumes "ev_Type ev = Some ''container''"
    and "ev_Actor ev = None \<or> ev_Action ev = None"
  shows "\<exists>k. process_event cfg get_f post_f ev w = (Inl (KeyError k), w)"
  using assms by (auto simp: process_event_def split: option.splits)

lemma process_event_no_id:
  assumes "ev_Type ev = Some ''container''"
    and "ev_Actor ev = Some act"
    and "Attributes act = Some attributes"
    and "ev_Action ev = Some action"
    and "ev_id ev = None"
  shows "process_event cfg get_f post_f ev w =
           (if container_skipped cfg (container_name_of attributes) \<or> action_skipped cfg action
               \<or> event_configs action = None
            then (Inr (), w)
            else (Inl (KeyError ''id''), w))"
  using assms by (auto simp: process_event_def notify_def split: option.splits)

text \<open>
  Claim C9, as the code has it. Let the loop have read the items \<open>pre\<close> and wait in the
  world \<open>w1\<close>. A container event without the key Actor or without the key Action then
  raises a \<open>KeyError\<close>, which \<open>monitor_events\<close> logs as fatal and raises again; the
  rest of the stream is not read. A container event that has these keys and lacks only
  the key id raises the \<open>KeyError\<close> of id in the same way when it passes both
  allow-lists and its action has a template; otherwise it is skipped and the loop goes
  on as if the event had not been there.
\<close>

theorem missing_key_fatal:
  assumes "monitor_loop cfg get_f post_f pre (log_startup cfg w) = (None, w1)"
  shows "(ev_Type ev = Some ''container'' \<and> (ev_Actor ev = None \<or> ev_Action ev = None)
            \<longrightarrow> (\<exists>k. monitor_events cfg get_f post_f (pre @ Event ev # rest) w
                       = (Reraised (KeyError k),
                          emit (Log ERROR (''Fatal error in event monitoring: ''
                                           @ exn_str (KeyError k))) w1)))
         \<and> (ev_Type ev' = Some ''container'' \<and> ev_Actor ev' = Some act
              \<and> Attributes act = Some attributes \<and> ev_Action ev' = Some action
              \<and> ev_id ev' = None
            \<longrightarrow> (if container_skipped cfg (container_name_of attributes)
                      \<or> action_skipped cfg action \<or> event_configs action = None
                   then monitor_events cfg get_f post_f (pre @ Event ev' # rest) w
                          = monitor_events cfg get_f post_f (pre @ rest) w
                   else monitor_events cfg get_f post_f (pre @ Event ev' # rest) w
                          = (Reraised (KeyError ''id''),
                             emit (Log ERROR (''Fatal error in event monitoring: ''
                                              @ exn_str (KeyError ''id''))) w1)))"
proof (intro conjI impI)
  assume a: "ev_Type ev = Some ''container'' \<and> (ev_Actor ev = None \<or> ev_Action ev = None)"
  then obtain k where "process_event cfg get_f post_f ev w1 = (Inl (KeyError k), w1)"
    using process_event_lacks_key [of ev cfg get_f post_f w1] by blast
  then have "monitor_loop cfg get_f post_f (pre @ Event ev # rest) (log_startup cfg w)
               = (Some (Exception (KeyError k)), w1)"
    using assms by (simp add: monitor_loop_append)
  from monitor_events_fatal [OF this]
  show "\<exists>k. monitor_events cfg get_f post_f (pre @ Event ev # rest) w
               = (Reraised (KeyError k),
                  emit (Log ERROR (''Fatal error in event monitoring: ''
                                   @ exn_str (KeyError k))) w1)"
    by blast
next
  assume a: "ev_Type ev' = Some ''container'' \<and> ev_Actor ev' = Some act
              \<and> Attributes act = Some attributes \<and> ev_Action ev' = Some action
              \<and> ev_id ev' = None"
  then have p: "process_event cfg get_f post_f ev' w1 =
           (if container_skipped cfg (container_name_of attributes) \<or> action_skipped cfg action
               \<or> event_configs action = None
            then (Inr (), w1)
            else (Inl (KeyError ''id''), w1))"
    using process_event_no_id [of ev' act attributes action cfg get_f post_f w1] by blast
  show "if container_skipped cfg (container_name_of attributes)
           \<or> action_skipped cfg action \<or> event_configs action = None
        then monitor_events cfg get_f post_f (pre @ Event ev' # rest) w
               = monitor_events cfg get_f post_f (pre @ rest) w
        else monitor_events cfg get_f post_f (pre @ Event ev' # rest) w
               = (Reraised (KeyError ''id''),
                  emit (Log ERROR (''Fatal error in event monitoring: ''
                                   @ exn_str (KeyError ''id''))) w1)"
  proof (cases "container_skipped cfg (container_name_of attributes)
                 \<or> action_skipped cfg action \<or> event_configs action = None")
    case True
    with p have "process_event cfg get_f post_f ev' w1 = (Inr (), w1)"
      by simp
    then have "monitor_loop cfg get_f post_f (pre @ Event ev' # rest) (log_startup cfg w)
                 = monitor_loop cfg get_f post_f (pre @ rest) (log_startup cfg w)"
      using assms by (simp add: monitor_loop_append)
    then have "monitor_events cfg get_f post_f (pre @ Event ev' # rest) w
                 = monitor_events cfg get_f post_f (pre @ rest) w"
      by (simp add: monitor_events_def)
    with True show ?thesis by simp
  next
    case False
    with p have "process_event cfg get_f post_f ev' w1 = (Inl (KeyError ''id''), w1)"
      by simp
    then have "monitor_loop cfg get_f post_f (pre @ Event ev' # rest) (log_startup cfg w)
                 = (Some (Exception (KeyError ''id'')), w1)"
      using assms by (simp add: monitor_loop_append)
    from monitor_events_fatal [OF this] False show ?thesis by (simp only: if_False)
  qed
qed

text \<open>
  The theorem after one network event, at a start event without Action and at a start
  event without id, each followed by a die event that is never read.
\<close>

theorem missing_key_fatal_witness:
  "monitor_loop cfg0 rt_web flaky [Event ev_network] (log_startup cfg0 w0)
     = (None, log_startup cfg0 w0)
   \<and> ev_Type ((ev_web ''start'')\<lparr>ev_Action := None\<rparr>) = Some ''container''
   \<and> ev_Action ((ev_web ''start'')\<lparr>ev_Action := None\<rparr>) = None
   \<and> (\<exists>k. monitor_events cfg0 rt_web flaky
              ([Event ev_network] @ Event ((ev_web ''start'')\<lparr>ev_Action := None\<rparr>)
                 # [Event (ev_web ''die'')]) w0
            = (Reraised (KeyError k),
               emit (Log ERROR (''Fatal error in event monitoring: '' @ exn_str (KeyError k)))
                 (log_startup cfg0 w0)))
   \<and> ev_id ((ev_web ''start'')\<lparr>ev_id := None\<rparr>) = None
   \<and> monitor_events cfg0 rt_web flaky
        ([Event ev_network] @ Event ((ev_web ''start'')\<lparr>ev_id := None\<rparr>)
           # [Event (ev_web ''die'')]) w0
       = (Reraised (KeyError ''id''),
          emit (Log ERROR (''Fatal error in event monitoring: '' @ exn_str (KeyError ''id'')))
            (log_startup cfg0 w0))"
proof -
  have h0: "monitor_loop cfg0 rt_web flaky [Event ev_network] (log_startup cfg0 w0)
              = (None, log_startup cfg0 w0)"
    by (simp add: process_event_def ev_network_def)
  have h1: "ev_Type ((ev_web ''start'')\<lparr>ev_Action := None\<rparr>) = Some ''container''"
    by (simp add: ev_web_def)
  have h2: "ev_Action ((ev_web ''start'')\<lparr>ev_Action := None\<rparr>) = None"
    by simp
  have h3: "ev_Type ((ev_web ''start'')\<lparr>ev_id := None\<rparr>) = Some ''container''
            \<and> ev_Actor ((ev_web ''start'')\<lparr>ev_id := None\<rparr>)
                = Some \<lparr>Attributes = Some [''name'' \<mapsto> ''web'', ''exitCode'' \<mapsto> ''137'']\<rparr>
            \<and> Attributes \<lparr>Attributes = Some [''name'' \<mapsto> ''web'', ''exitCode'' \<mapsto> ''137'']\<rparr>
                = Some [''name'' \<mapsto> ''web'', ''exitCode'' \<mapsto> ''137'']
            \<and> ev_Action ((ev_web ''start'')\<lparr>ev_id := None\<rparr>) = Some ''start''
            \<and> ev_id ((ev_web ''start'')\<lparr>ev_id := None\<rparr>) = None"
    by (simp add: ev_web_def)
  have h4: "\<not> (container_skipped cfg0
                 (container_name_of [''name'' \<mapsto> ''web'', ''exitCode'' \<mapsto> ''137''])
               \<or> action_skipped cfg0 ''start'' \<or> event_configs ''start'' = None)"
    by (simp add: container_skipped_def action_skipped_def cfg0_def event_configs_def)
  note T = missing_key_fatal [OF h0,
      where ev = "(ev_web ''start'')\<lparr>ev_Action := None\<rparr>"
        and ev' = "(ev_web ''start'')\<lparr>ev_id := None\<rparr>"
        and rest = "[Event (ev_web ''die'')]"
        and act = "\<lparr>Attributes = Some [''name'' \<mapsto> ''web'', ''exitCode'' \<mapsto> ''137'']\<rparr>"
        and attributes = "[''name'' \<mapsto> ''web'', ''exitCode'' \<mapsto> ''137'']"
        and action = "''start''"]
  have c1: "\<exists>k. monitor_events cfg0 rt_web flaky
              ([Event ev_network] @ Event ((ev_web ''start'')\<lparr>ev_Action := None\<rparr>)
                 # [Event (ev_web ''die'')]) w0
            = (Reraised (KeyError k),
               emit (Log ERROR (''Fatal error in event monitoring: '' @ exn_str (KeyError k)))
                 (log_startup cfg0 w0))"
    by (rule mp [OF conjunct1 [OF T]]) (intro conjI disjI2 h1 h2)
  have c2: "monitor_events cfg0 rt_web flaky
        ([Event ev_network] @ Event ((ev_web ''start'')\<lparr>ev_id := None\<rparr>)
           # [Event (ev_web ''die'')]) w0
       = (Reraised (KeyError ''id''),
          emit (Log ERROR (''Fatal error in event monitoring: '' @ exn_str (KeyError ''id'')))
            (log_startup cfg0 w0))"
    using mp [OF conjunct2 [OF T] h3] h4 by (simp only: if_False)
  have h5: "ev_id ((ev_web ''start'')\<lparr>ev_id := None\<rparr>) = None"
    by simp
  show ?thesis
    by (intro conjI h0 h1 h2 c1 h5 c2)
qed

text \<open>
  Claim C9 as written fails for the key id: a create event of a container, which has no
  id, raises nothing. The loop skips it and waits for the next event.
\<close>

theorem missing_id_skipped_without_template:
  "ev_Type ((ev_web ''create'')\<lparr>ev_id := None\<rparr>) = Some ''container''
   \<and> ev_id ((ev_web ''create'')\<lparr>ev_id := None\<rparr>) = None
   \<and> monitor_events cfg0 rt_web flaky [Event ((ev_web ''create'')\<lparr>ev_id := None\<rparr>)] w0
       = (Waiting, log_startup cfg0 w0)"
  by (simp add: monitor_events_def process_event_def ev_web_def cfg0_def container_skipped_def
      action_skipped_def event_configs_def)

subsection \<open>One event after the other\<close>








end
